theory Spec2Isabelle
  imports Main
begin

section \<open>OAuth 2.0 / OpenID Connect error values of expo-auth-session\<close>

text \<open>
  A shallow embedding of \<^verbatim>\<open>packages/expo-auth-session/src/Errors.ts\<close>: the catalog
  \<^verbatim>\<open>errorCodeMessages\<close>, the constructor of \<^verbatim>\<open>ResponseError\<close> and the constructor of
  \<^verbatim>\<open>AuthError\<close>. The constructors read properties of plain JavaScript objects with a
  string taken from their argument, test values for truthiness and join strings; the
  part of the language they exercise is written out first.
\<close>

subsection \<open>The fragment of JavaScript the constructors use\<close>

text \<open>
  The values the catalog lookup of line 85 can produce when the category is a key of the
  catalog: \<^verbatim>\<open>undefined\<close>, a string, the object \<^verbatim>\<open>Object.prototype\<close> itself (read
  through the accessor \<^verbatim>\<open>__proto__\<close>) and a built-in function, named by its
  \<^verbatim>\<open>name\<close> property. The typed inputs (\<^verbatim>\<open>error_description?: string\<close>) are strings or
  undefined, so \<^verbatim>\<open>null\<close> and numbers do not occur.
\<close>

datatype jsval = Undefined | Str string | ObjectPrototype | Builtin string

datatype js_error = TypeError

text \<open>
  How an evaluation ends: with a value, with a thrown exception, or \<open>HostDefined\<close>
  where the result is fixed by the properties of the engine's built-in function objects
  and not by this module (see \<open>lookup_message\<close>).
\<close>

datatype 'a completion = Normal 'a | Throw js_error | HostDefined

text \<open>
  An object literal has the prototype \<^verbatim>\<open>Object.prototype\<close>, and the property read
  \<^verbatim>\<open>o[k]\<close> walks the prototype chain when \<^verbatim>\<open>o\<close> has no own property \<^verbatim>\<open>k\<close>.
  These are the string-keyed properties of \<^verbatim>\<open>Object.prototype\<close> (ECMAScript 2015 and
  later, the legacy accessors of its Annex B included, as V8, JavaScriptCore and Hermes
  have them).
\<close>

definition ObjectPrototype_names :: "string list" where
  "ObjectPrototype_names =
    [''constructor'', ''hasOwnProperty'', ''isPrototypeOf'', ''propertyIsEnumerable'',
     ''toLocaleString'', ''toString'', ''valueOf'', ''__proto__'',
     ''__defineGetter__'', ''__defineSetter__'', ''__lookupGetter__'', ''__lookupSetter__'']"

text \<open>
  The value of \<^verbatim>\<open>o[k]\<close> for an object literal \<^verbatim>\<open>o\<close> without own property \<^verbatim>\<open>k\<close>:
  \<^verbatim>\<open>__proto__\<close> is an accessor that returns the prototype of \<^verbatim>\<open>o\<close>,
  \<^verbatim>\<open>constructor\<close> is the function \<^verbatim>\<open>Object\<close>, every other name of the list is a
  method whose \<^verbatim>\<open>name\<close> is its key, and any other key gives \<^verbatim>\<open>undefined\<close>.
\<close>

definition inherited :: "string \<Rightarrow> jsval" where
  "inherited k =
    (if k = ''__proto__'' then ObjectPrototype
     else if k = ''constructor'' then Builtin ''Object''
     else if k \<in> set ObjectPrototype_names then Builtin k
     else Undefined)"

text \<open>\<^verbatim>\<open>o[k]\<close> for an object literal whose own properties are the strings of \<open>own\<close>.\<close>

definition get_property :: "(string \<times> string) list \<Rightarrow> string \<Rightarrow> jsval" where
  "get_property own k = (case map_of own k of Some s \<Rightarrow> Str s | None \<Rightarrow> inherited k)"

text \<open>
  Truthiness, as \<^verbatim>\<open>if (v)\<close> and \<^verbatim>\<open>v ? a : b\<close> test it: \<^verbatim>\<open>undefined\<close> and the empty
  string are falsy, every object is truthy.
\<close>

fun truthy :: "jsval \<Rightarrow> bool" where
  "truthy Undefined = False"
| "truthy (Str s) = (s \<noteq> [])"
| "truthy ObjectPrototype = True"
| "truthy (Builtin n) = True"

text \<open>
  The string a value becomes as an operand of \<^verbatim>\<open>+\<close> with a string and inside a template
  literal. The source text of a built-in function is implementation-defined within the
  grammar \<^verbatim>\<open>function name() { [native code] }\<close>; the layout is the one of V8 and Hermes.
\<close>

fun to_string :: "jsval \<Rightarrow> string" where
  "to_string Undefined = ''undefined''"
| "to_string (Str s) = s"
| "to_string ObjectPrototype = ''[object Object]''"
| "to_string (Builtin n) = ''function '' @ n @ ''() { [native code] }''"

text \<open>\<^verbatim>\<open>a ?? b\<close>: the right operand only when the left one is \<^verbatim>\<open>undefined\<close>.\<close>

definition nullish_coalesce :: "jsval \<Rightarrow> jsval \<Rightarrow> jsval" where
  "nullish_coalesce a b = (if a = Undefined then b else a)"

text \<open>An optional string property as a value: absent is \<^verbatim>\<open>undefined\<close>.\<close>

fun optional :: "string option \<Rightarrow> jsval" where
  "optional None = Undefined"
| "optional (Some s) = Str s"

subsection \<open>The data model\<close>

text \<open>
  \<^verbatim>\<open>ResponseErrorConfig\<close> (lines 6 to 19): the required code, two optional strings, and
  the other string-keyed properties of the record (\<^verbatim>\<open>extends Record<string, any>\<close>,
  kept as strings as \<^verbatim>\<open>params: Record<string, string>\<close> has them).
  \<^verbatim>\<open>AuthErrorConfig\<close> (lines 21 to 26) extends it by \<^verbatim>\<open>state\<close>.
\<close>

record ResponseErrorConfig =
  error :: string
  error_description :: "string option"
  error_uri :: "string option"
  extra :: "string \<rightharpoonup> string"

record AuthErrorConfig = ResponseErrorConfig +
  state :: "string option"

text \<open>
  Modelled from the spec: the base class \<^verbatim>\<open>CodedError\<close> is imported from
  \<^verbatim>\<open>@unimodules/core\<close> and its source is not part of this module; by the spec's section
  4.2 the value built by \<^verbatim>\<open>super(error, errorMessage)\<close> has \<open>code\<close> equal to the first
  argument and \<open>message\<close> equal to the second.
\<close>

record CodedError =
  code :: string
  message :: string

text \<open>
  \<^verbatim>\<open>ResponseError\<close> (lines 66 to 81) and \<^verbatim>\<open>AuthError\<close> (lines 104 to 108). The field
  \<open>description\<close> is declared \<^verbatim>\<open>string | undefined\<close> but is assigned whatever the catalog
  lookup returned, so it holds a value; \<open>params\<close> is the argument itself, of type \<open>'p\<close>.
\<close>

record 'p ResponseError = CodedError +
  description :: jsval
  uri :: "string option"
  params :: 'p

record 'p AuthError = "'p ResponseError" +
  state :: "string option"

subsection \<open>The catalog\<close>

text \<open>The object \<^verbatim>\<open>errorCodeMessages.auth\<close> (lines 31 to 60), in the order of the source.\<close>

definition auth :: "(string \<times> string) list" where
  "auth = [
    (''invalid_request'',
     ''The request is missing a required parameter, includes an invalid parameter value, includes a parameter more than once, or is otherwise malformed.''),
    (''unauthorized_client'',
     ''The client is not authorized to request an authorization code using this method.''),
    (''access_denied'',
     ''The resource owner or authorization server denied the request.''),
    (''unsupported_response_type'',
     ''The authorization server does not support obtaining an authorization code using this method.''),
    (''invalid_scope'',
     ''The requested scope is invalid, unknown, or malformed.''),
    (''server_error'',
     ''The authorization server encountered an unexpected condition that prevented it from fulfilling the request. (This error code is needed because a 500 Internal Server Error HTTP status code cannot be returned to the client via an HTTP redirect.)''),
    (''temporarily_unavailable'',
     ''The authorization server is currently unable to handle the request due to a temporary overloading or maintenance of the server.  (This error code is needed because a 503 Service Unavailable HTTP status code cannot be returned to the client via an HTTP redirect.)''),
    (''interaction_required'',
     ''Auth server requires user interaction of some form to proceed. This error may be returned when the prompt parameter value in the auth request is none, but the auth request cannot be completed without displaying a user interface for user interaction.''),
    (''login_required'',
     ''Auth server requires user authentication. This error may be returned when the prompt parameter value in the auth request is none, but the auth request cannot be completed without displaying a user interface for user authentication.''),
    (''account_selection_required'',
     ''User is required to select a session at the auth server. The user may be authenticated at the auth server with different associated accounts, but the user did not select a session. This error may be returned when the prompt parameter value in the auth request is `none`, but the auth request cannot be completed without displaying a user interface to prompt for a session to use.''),
    (''consent_required'',
     ''Auth server requires user consent. This error may be returned when the prompt parameter value in the auth request is none, but the auth request cannot be completed without displaying a user interface for user consent.''),
    (''invalid_request_uri'',
     ''The `request_uri` in the auth request returns an error or contains invalid data.''),
    (''invalid_request_object'',
     ''The request parameter contains an invalid request object.''),
    (''request_not_supported'',
     ''The OP does not support use of the `request` parameter defined in Section 6. (https://openid.net/specs/openid-connect-core-1_0.html#JWTRequests)''),
    (''request_uri_not_supported'',
     ''The OP does not support use of the `request_uri` parameter defined in Section 6. (https://openid.net/specs/openid-connect-core-1_0.html#JWTRequests)''),
    (''registration_not_supported'',
     ''The OP does not support use of the `registration` parameter defined in Section 7.2.1. (https://openid.net/specs/openid-connect-core-1_0.html#RegistrationParameter)'')
  ]"

text \<open>\<^verbatim>\<open>errorCodeMessages\<close> (lines 28 to 61): one own property, \<^verbatim>\<open>auth\<close>.\<close>

definition errorCodeMessages :: "(string \<times> (string \<times> string) list) list" where
  "errorCodeMessages = [(''auth'', auth)]"

subsection \<open>The constructors\<close>

text \<open>
  \<^verbatim>\<open>errorCodeMessages[errorCodeType][error]\<close> (line 85). When the category is an own
  property of the catalog the code is read from its table. When the first read gives
  \<^verbatim>\<open>undefined\<close>, reading a property of \<^verbatim>\<open>undefined\<close> throws a \<^verbatim>\<open>TypeError\<close>. When
  the category names a member inherited from \<^verbatim>\<open>Object.prototype\<close>, the second read is a
  property read on a built-in object of the engine: \<open>HostDefined\<close>.
\<close>

definition lookup_message :: "string \<Rightarrow> string \<Rightarrow> jsval completion" where
  "lookup_message errorCodeType error' =
    (case map_of errorCodeMessages errorCodeType of
       Some messages \<Rightarrow> Normal (get_property messages error')
     | None \<Rightarrow> if inherited errorCodeType = Undefined then Throw TypeError else HostDefined)"

text \<open>
  The constructor of \<^verbatim>\<open>ResponseError\<close> (lines 83 to 98). The parameters and local
  constants of the source that share a name with a field carry a prime.
\<close>

definition ResponseError_constructor ::
  "'a ResponseErrorConfig_scheme \<Rightarrow> string \<Rightarrow> 'a ResponseErrorConfig_scheme ResponseError completion"
where
  "ResponseError_constructor params' errorCodeType =
    (let error' = error params';
         error_description' = optional (error_description params');
         error_uri' = error_uri params'
     in case lookup_message errorCodeType error' of
          Throw e \<Rightarrow> Throw e
        | HostDefined \<Rightarrow> HostDefined
        | Normal message' \<Rightarrow>
            let errorMessage =
              (if truthy message' then
                 to_string message' @
                   (if truthy error_description'
                    then ''\<newline>More info: '' @ to_string error_description' else '''')
               else if truthy error_description' then to_string error_description'
               else ''An unknown error occurred'')
            in Normal \<lparr>code = error', message = errorMessage,
                 description = nullish_coalesce error_description' message',
                 uri = error_uri', params = params'\<rparr>)"

text \<open>
  The constructor of \<^verbatim>\<open>AuthError\<close> (lines 110 to 113): \<^verbatim>\<open>super(response, 'auth')\<close>, then
  the assignment of \<^verbatim>\<open>state\<close> to the object the super constructor built.
\<close>

definition AuthError_constructor ::
  "'a AuthErrorConfig_scheme \<Rightarrow> 'a AuthErrorConfig_scheme AuthError completion"
where
  "AuthError_constructor response =
    (case ResponseError_constructor response ''auth'' of
       Throw e \<Rightarrow> Throw e
     | HostDefined \<Rightarrow> HostDefined
     | Normal this \<Rightarrow>
         Normal (ResponseError.extend this (AuthError.fields (AuthErrorConfig.state response))))"

section \<open>Properties\<close>

subsection \<open>Facts about the lookup\<close>

lemmas constructor_defs =
  ResponseError_constructor_def lookup_message_def errorCodeMessages_def get_property_def
  inherited_def ObjectPrototype_names_def nullish_coalesce_def Let_def

lemma lookup_message_auth: "lookup_message ''auth'' c = Normal (get_property auth c)"
  by (simp add: lookup_message_def errorCodeMessages_def)

lemma auth_texts_nonempty: "[] \<notin> snd ` set auth"
  by (simp add: auth_def)

text \<open>Every catalog text is a truthy string, so a hit always takes the branch of line 88.\<close>

lemma auth_message_nonempty:
  assumes "map_of auth c = Some text"
  shows "text \<noteq> []"
proof -
  from assms have "(c, text) \<in> set auth" by (rule map_of_SomeD)
  then have "snd (c, text) \<in> snd ` set auth" by (rule imageI)
  then have "text \<in> snd ` set auth" by simp
  with auth_texts_nonempty show ?thesis by blast
qed

lemma get_property_own: "map_of own c = Some text \<Longrightarrow> get_property own c = Str text"
  by (simp add: get_property_def)

lemma inherited_other: "c \<notin> set ObjectPrototype_names \<Longrightarrow> inherited c = Undefined"
  by (auto simp: inherited_def ObjectPrototype_names_def)

text \<open>
  A key that is neither an own property nor a name of \<^verbatim>\<open>Object.prototype\<close> reads as
  \<^verbatim>\<open>undefined\<close>.
\<close>

lemma get_property_missing:
  assumes "c \<notin> fst ` set own" and "c \<notin> set ObjectPrototype_names"
  shows "get_property own c = Undefined"
proof -
  from assms(1) have "map_of own c = None" by (simp add: map_of_eq_None_iff)
  with assms(2) show ?thesis by (simp add: get_property_def inherited_other)
qed

text \<open>
  A category that is no property of the catalog object, own or inherited, makes the
  lookup of line 85 throw, whatever the code is.
\<close>

lemma lookup_message_unknown_category:
  assumes "c \<noteq> ''auth''" and "c \<notin> set ObjectPrototype_names"
  shows "lookup_message c e = Throw TypeError"
  using assms by (simp add: lookup_message_def errorCodeMessages_def inherited_other)

lemma ResponseError_constructor_unknown_category:
  assumes "c \<noteq> ''auth''" and "c \<notin> set ObjectPrototype_names"
  shows "ResponseError_constructor p c = Throw TypeError"
  using assms by (simp add: ResponseError_constructor_def lookup_message_unknown_category)

subsection \<open>Construction with the category \<^verbatim>\<open>auth\<close> is total\<close>

text \<open>
  C1, as amended. For every input record, constructing a \<^verbatim>\<open>ResponseError\<close> with the
  category \<^verbatim>\<open>auth\<close>, the only category of the catalog, never throws: it returns an error
  value whose code is the input's code. A code that is no property of the catalog object
  (none of the sixteen codes and no name inherited from \<^verbatim>\<open>Object.prototype\<close>) is a miss
  handled by the fallback policy: the message is the description when that is a
  non-empty string, and \<^verbatim>\<open>An unknown error occurred\<close> otherwise.
\<close>

theorem ResponseError_auth_total:
  "\<exists>r. ResponseError_constructor p ''auth'' = Normal r \<and> code r = error p \<and>
     (error p \<notin> fst ` set auth \<and> error p \<notin> set ObjectPrototype_names \<longrightarrow>
        message r = (case error_description p of
                       None \<Rightarrow> ''An unknown error occurred''
                     | Some d \<Rightarrow> if d = [] then ''An unknown error occurred'' else d))"
  by (auto simp: ResponseError_constructor_def lookup_message_auth Let_def get_property_missing
      split: option.splits)

theorem ResponseError_auth_total_witness:
  "''no_such_code'' \<notin> fst ` set auth \<and> ''no_such_code'' \<notin> set ObjectPrototype_names \<and>
   (\<exists>r. ResponseError_constructor
          \<lparr>error = ''no_such_code'', error_description = Some ''try again later'',
           error_uri = None, extra = Map.empty\<rparr> ''auth'' = Normal r \<and>
        code r = ''no_such_code'' \<and> message r = ''try again later'')"
proof -
  have own: "''no_such_code'' \<notin> fst ` set auth"
    by (simp add: auth_def)
  have proto: "''no_such_code'' \<notin> set ObjectPrototype_names"
    by (simp add: ObjectPrototype_names_def)
  from ResponseError_auth_total
    [of "\<lparr>error = ''no_such_code'', error_description = Some ''try again later'',
          error_uri = None, extra = Map.empty\<rparr>"]
  show ?thesis using own proto by simp
qed

text \<open>
  C1 as written fails: with a category that the catalog does not have, the first
  property read gives \<^verbatim>\<open>undefined\<close> and the second one throws.
\<close>

theorem ResponseError_unknown_category_throws:
  "ResponseError_constructor
     \<lparr>error = ''access_denied'', error_description = None, error_uri = None,
      extra = Map.empty\<rparr> ''token'' = Throw TypeError"
  by (simp add: constructor_defs)

subsection \<open>Message resolution\<close>

text \<open>
  C2, as amended. With the category \<^verbatim>\<open>auth\<close>, for every input whose code is no property
  of the catalog object (none of the sixteen codes and no name inherited from
  \<^verbatim>\<open>Object.prototype\<close>) and whose \<^verbatim>\<open>error_description\<close> is absent, the message of the
  constructed error is exactly \<^verbatim>\<open>An unknown error occurred\<close>.
\<close>

theorem unknown_code_fallback_message:
  assumes "error p \<notin> fst ` set auth" and "error p \<notin> set ObjectPrototype_names"
    and "error_description p = None"
  shows "\<exists>r. ResponseError_constructor p ''auth'' = Normal r \<and>
           message r = ''An unknown error occurred''"
  using assms
  by (simp add: ResponseError_constructor_def lookup_message_auth Let_def get_property_missing)

text \<open>Scenario C of the spec: \<^verbatim>\<open>{error: "totally_made_up"}\<close>.\<close>

theorem unknown_code_fallback_message_witness:
  "''totally_made_up'' \<notin> fst ` set auth \<and> ''totally_made_up'' \<notin> set ObjectPrototype_names \<and>
   (\<exists>r. ResponseError_constructor
          \<lparr>error = ''totally_made_up'', error_description = None, error_uri = None,
           extra = Map.empty\<rparr> ''auth'' = Normal r \<and>
        message r = ''An unknown error occurred'')"
proof -
  have own: "''totally_made_up'' \<notin> fst ` set auth"
    by (simp add: auth_def)
  have proto: "''totally_made_up'' \<notin> set ObjectPrototype_names"
    by (simp add: ObjectPrototype_names_def)
  have "\<exists>r. ResponseError_constructor
          \<lparr>error = ''totally_made_up'', error_description = None, error_uri = None,
           extra = Map.empty\<rparr> ''auth'' = Normal r \<and>
        message r = ''An unknown error occurred''"
    by (rule unknown_code_fallback_message) (simp_all add: own proto)
  with own proto show ?thesis by simp
qed

text \<open>
  C2 as written ranges over every category; with one that the catalog does not have
  the constructor throws and there is no message at all.
\<close>

theorem unknown_code_unknown_category_throws:
  "ResponseError_constructor
     \<lparr>error = ''totally_made_up'', error_description = None, error_uri = None,
      extra = Map.empty\<rparr> ''token'' = Throw TypeError"
  by (simp add: constructor_defs)

text \<open>
  C3. For every code of the \<^verbatim>\<open>auth\<close> catalog and every non-empty description \<open>d\<close>, the
  message is the catalog text, a newline, \<^verbatim>\<open>More info: \<close> and \<open>d\<close>, and the description
  is \<open>d\<close>.
\<close>

theorem known_code_with_description:
  assumes "map_of auth (error p) = Some text" and "error_description p = Some d" and "d \<noteq> []"
  shows "\<exists>r. ResponseError_constructor p ''auth'' = Normal r \<and>
           message r = text @ ''\<newline>More info: '' @ d \<and> description r = Str d"
  using assms auth_message_nonempty [OF assms(1)]
  by (simp add: ResponseError_constructor_def lookup_message_auth Let_def get_property_own
      nullish_coalesce_def)

text \<open>Scenario B of the spec.\<close>

theorem known_code_with_description_witness:
  "map_of auth ''invalid_scope'' =
     Some ''The requested scope is invalid, unknown, or malformed.'' \<and>
   ''scope xyz not recognized'' \<noteq> [] \<and>
   (\<exists>r. ResponseError_constructor
          \<lparr>error = ''invalid_scope'', error_description = Some ''scope xyz not recognized'',
           error_uri = None, extra = Map.empty\<rparr> ''auth'' = Normal r \<and>
        message r = ''The requested scope is invalid, unknown, or malformed.\<newline>More info: scope xyz not recognized'' \<and>
        description r = Str ''scope xyz not recognized'')"
proof -
  have hit: "map_of auth ''invalid_scope'' =
      Some ''The requested scope is invalid, unknown, or malformed.''"
    by (simp add: auth_def)
  from known_code_with_description
    [of "\<lparr>error = ''invalid_scope'', error_description = Some ''scope xyz not recognized'',
          error_uri = None, extra = Map.empty\<rparr>"
        "''The requested scope is invalid, unknown, or malformed.''"
        "''scope xyz not recognized''"]
  show ?thesis using hit by simp
qed

text \<open>
  C4. For every code of the \<^verbatim>\<open>auth\<close> catalog, an input without \<^verbatim>\<open>error_description\<close>
  gives a message equal to the catalog text and a description equal to the same text;
  the URI is the input's, so it is absent when the input has none.
\<close>

theorem known_code_without_description:
  assumes "map_of auth (error p) = Some text" and "error_description p = None"
  shows "\<exists>r. ResponseError_constructor p ''auth'' = Normal r \<and>
           message r = text \<and> description r = Str text \<and> uri r = error_uri p"
  using assms auth_message_nonempty [OF assms(1)]
  by (simp add: ResponseError_constructor_def lookup_message_auth Let_def get_property_own
      nullish_coalesce_def)

text \<open>Scenario A of the spec: \<^verbatim>\<open>{error: "access_denied"}\<close>.\<close>

theorem known_code_without_description_witness:
  "map_of auth ''access_denied'' =
     Some ''The resource owner or authorization server denied the request.'' \<and>
   (\<exists>r. ResponseError_constructor
          \<lparr>error = ''access_denied'', error_description = None, error_uri = None,
           extra = Map.empty\<rparr> ''auth'' = Normal r \<and>
        message r = ''The resource owner or authorization server denied the request.'' \<and>
        description r = Str ''The resource owner or authorization server denied the request.'' \<and>
        uri r = None)"
proof -
  have hit: "map_of auth ''access_denied'' =
      Some ''The resource owner or authorization server denied the request.''"
    by (simp add: auth_def)
  from known_code_without_description
    [of "\<lparr>error = ''access_denied'', error_description = None, error_uri = None,
          extra = Map.empty\<rparr>"
        "''The resource owner or authorization server denied the request.''"]
  show ?thesis using hit by simp
qed

text \<open>
  C5, as amended. With the category \<^verbatim>\<open>auth\<close>, for every input whose code is no property
  of the catalog object and whose \<^verbatim>\<open>error_description\<close> is a non-empty string, the
  message is that description verbatim.
\<close>

theorem unknown_code_description_verbatim:
  assumes "error p \<notin> fst ` set auth" and "error p \<notin> set ObjectPrototype_names"
    and "error_description p = Some d" and "d \<noteq> []"
  shows "\<exists>r. ResponseError_constructor p ''auth'' = Normal r \<and> message r = d"
  using assms
  by (simp add: ResponseError_constructor_def lookup_message_auth Let_def get_property_missing)

text \<open>Scenario D of the spec.\<close>

theorem unknown_code_description_verbatim_witness:
  "''totally_made_up'' \<notin> fst ` set auth \<and> ''totally_made_up'' \<notin> set ObjectPrototype_names \<and>
   ''custom text'' \<noteq> [] \<and>
   (\<exists>r. ResponseError_constructor
          \<lparr>error = ''totally_made_up'', error_description = Some ''custom text'',
           error_uri = None, extra = Map.empty\<rparr> ''auth'' = Normal r \<and>
        message r = ''custom text'')"
proof -
  have own: "''totally_made_up'' \<notin> fst ` set auth"
    by (simp add: auth_def)
  have proto: "''totally_made_up'' \<notin> set ObjectPrototype_names"
    by (simp add: ObjectPrototype_names_def)
  from unknown_code_description_verbatim
    [of "\<lparr>error = ''totally_made_up'', error_description = Some ''custom text'',
          error_uri = None, extra = Map.empty\<rparr>" "''custom text''"]
  show ?thesis using own proto by simp
qed

text \<open>
  C5 as written fails for a description that is present and empty: the test of
  line 89 is a truthiness test, so the empty string falls through to the literal.
\<close>

theorem empty_description_not_verbatim:
  "ResponseError_constructor
     \<lparr>error = ''totally_made_up'', error_description = Some '''', error_uri = None,
      extra = Map.empty\<rparr> ''auth'' =
   Normal \<lparr>code = ''totally_made_up'', message = ''An unknown error occurred'',
     description = Str '''', uri = None,
     params = \<lparr>error = ''totally_made_up'', error_description = Some '''',
       error_uri = None, extra = Map.empty\<rparr>\<rparr>"
  by (simp add: constructor_defs auth_def)

subsection \<open>\<^verbatim>\<open>AuthError\<close> over \<^verbatim>\<open>ResponseError\<close>\<close>

text \<open>
  C6. For every \<^verbatim>\<open>AuthErrorConfig\<close>, constructing an \<^verbatim>\<open>AuthError\<close> returns, and its
  result is the \<^verbatim>\<open>ResponseError\<close> built from the same record with the category
  \<^verbatim>\<open>auth\<close> (same code, message, description, URI and params), extended by a \<open>state\<close>
  field that equals the input's: present with the same string, or absent.
\<close>

theorem AuthError_is_ResponseError_auth_with_state:
  "\<exists>r a. ResponseError_constructor response ''auth'' = Normal r \<and>
         AuthError_constructor response = Normal a \<and>
         code a = code r \<and> message a = message r \<and> description a = description r \<and>
         uri a = uri r \<and> params a = params r \<and> ResponseError.truncate a = r \<and>
         AuthError.state a = AuthErrorConfig.state response"
  by (simp add: AuthError_constructor_def ResponseError_constructor_def lookup_message_auth Let_def
      ResponseError.extend_def ResponseError.truncate_def AuthError.fields_def)

text \<open>A run of the constructor with a state, a URI and an extra field.\<close>

lemma AuthError_constructor_example:
  "AuthError_constructor
     \<lparr>error = ''login_required'', error_description = None,
      error_uri = Some ''https://as.example/e'', extra = [''session'' \<mapsto> ''7''],
      AuthErrorConfig.state = Some ''xyz''\<rparr> =
   Normal \<lparr>code = ''login_required'',
     message = ''Auth server requires user authentication. This error may be returned when the prompt parameter value in the auth request is none, but the auth request cannot be completed without displaying a user interface for user authentication.'',
     description = Str ''Auth server requires user authentication. This error may be returned when the prompt parameter value in the auth request is none, but the auth request cannot be completed without displaying a user interface for user authentication.'',
     uri = Some ''https://as.example/e'',
     params = \<lparr>error = ''login_required'', error_description = None,
       error_uri = Some ''https://as.example/e'', extra = [''session'' \<mapsto> ''7''],
       AuthErrorConfig.state = Some ''xyz''\<rparr>,
     AuthError.state = Some ''xyz''\<rparr>"
  by (simp add: AuthError_constructor_def constructor_defs auth_def
      ResponseError.extend_def AuthError.fields_def)

subsection \<open>The fields copied from the input\<close>

text \<open>
  C7. Whenever a constructor returns an error, its \<open>params\<close> field is the whole input
  record: the code, the description, the URI, every extra field and, for an
  \<^verbatim>\<open>AuthError\<close>, the state.
\<close>

theorem params_is_input:
  "(ResponseError_constructor p c = Normal r \<longrightarrow> params r = p) \<and>
   (AuthError_constructor response = Normal a \<longrightarrow> params a = response)"
  by (auto simp: AuthError_constructor_def ResponseError_constructor_def Let_def
      ResponseError.extend_def AuthError.fields_def split: completion.splits)

theorem params_is_input_witness:
  "ResponseError_constructor
     \<lparr>error = ''server_down'', error_description = Some ''busy'', error_uri = None,
      extra = [''retry_after'' \<mapsto> ''30'']\<rparr> ''auth'' =
   Normal \<lparr>code = ''server_down'', message = ''busy'', description = Str ''busy'', uri = None,
     params = \<lparr>error = ''server_down'', error_description = Some ''busy'', error_uri = None,
       extra = [''retry_after'' \<mapsto> ''30'']\<rparr>\<rparr> \<and>
   AuthError_constructor
     \<lparr>error = ''server_down'', error_description = Some ''busy'', error_uri = None,
      extra = [''retry_after'' \<mapsto> ''30''], AuthErrorConfig.state = Some ''s1''\<rparr> =
   Normal \<lparr>code = ''server_down'', message = ''busy'', description = Str ''busy'', uri = None,
     params = \<lparr>error = ''server_down'', error_description = Some ''busy'', error_uri = None,
       extra = [''retry_after'' \<mapsto> ''30''], AuthErrorConfig.state = Some ''s1''\<rparr>,
     AuthError.state = Some ''s1''\<rparr> \<and>
   params \<lparr>code = ''server_down'', message = ''busy'', description = Str ''busy'', uri = None,
     params = \<lparr>error = ''server_down'', error_description = Some ''busy'', error_uri = None,
       extra = [''retry_after'' \<mapsto> ''30'']\<rparr>\<rparr> =
     \<lparr>error = ''server_down'', error_description = Some ''busy'', error_uri = None,
      extra = [''retry_after'' \<mapsto> ''30'']\<rparr> \<and>
   params \<lparr>code = ''server_down'', message = ''busy'', description = Str ''busy'', uri = None,
     params = \<lparr>error = ''server_down'', error_description = Some ''busy'', error_uri = None,
       extra = [''retry_after'' \<mapsto> ''30''], AuthErrorConfig.state = Some ''s1''\<rparr>,
     AuthError.state = Some ''s1''\<rparr> =
     \<lparr>error = ''server_down'', error_description = Some ''busy'', error_uri = None,
      extra = [''retry_after'' \<mapsto> ''30''], AuthErrorConfig.state = Some ''s1''\<rparr>"
proof -
  let ?p = "\<lparr>error = ''server_down'', error_description = Some ''busy'', error_uri = None,
      extra = [''retry_after'' \<mapsto> ''30'']\<rparr>"
  let ?q = "\<lparr>error = ''server_down'', error_description = Some ''busy'', error_uri = None,
      extra = [''retry_after'' \<mapsto> ''30''], AuthErrorConfig.state = Some ''s1''\<rparr>"
  let ?r = "\<lparr>code = ''server_down'', message = ''busy'', description = Str ''busy'',
      uri = None, params = ?p\<rparr>"
  let ?a = "\<lparr>code = ''server_down'', message = ''busy'', description = Str ''busy'',
      uri = None, params = ?q, AuthError.state = Some ''s1''\<rparr>"
  have r: "ResponseError_constructor ?p ''auth'' = Normal ?r"
    by (simp add: constructor_defs auth_def)
  have a: "AuthError_constructor ?q = Normal ?a"
    by (simp add: AuthError_constructor_def constructor_defs auth_def
        ResponseError.extend_def AuthError.fields_def)
  from params_is_input [of ?p "''auth''" ?r ?q ?a] r a
  have "params ?r = ?p \<and> params ?a = ?q" by blast
  with r a show ?thesis by blast
qed

text \<open>
  C8. Whenever a constructor returns an error, its \<open>uri\<close> field equals the input's
  \<^verbatim>\<open>error_uri\<close>: the same string when present, absent when absent.
\<close>

theorem uri_is_error_uri:
  "(ResponseError_constructor p c = Normal r \<longrightarrow> uri r = error_uri p) \<and>
   (AuthError_constructor response = Normal a \<longrightarrow> uri a = error_uri response)"
  by (auto simp: AuthError_constructor_def ResponseError_constructor_def Let_def
      ResponseError.extend_def AuthError.fields_def split: completion.splits)

theorem uri_is_error_uri_witness:
  "ResponseError_constructor
     \<lparr>error = ''invalid_request'', error_description = Some ''no client_id'',
      error_uri = Some ''https://as.example/docs#invalid_request'', extra = Map.empty\<rparr> ''auth'' =
   Normal \<lparr>code = ''invalid_request'',
     message = ''The request is missing a required parameter, includes an invalid parameter value, includes a parameter more than once, or is otherwise malformed.\<newline>More info: no client_id'',
     description = Str ''no client_id'',
     uri = Some ''https://as.example/docs#invalid_request'',
     params = \<lparr>error = ''invalid_request'', error_description = Some ''no client_id'',
       error_uri = Some ''https://as.example/docs#invalid_request'', extra = Map.empty\<rparr>\<rparr> \<and>
   AuthError_constructor
     \<lparr>error = ''nope'', error_description = None, error_uri = None, extra = Map.empty,
      AuthErrorConfig.state = None\<rparr> =
   Normal \<lparr>code = ''nope'', message = ''An unknown error occurred'', description = Undefined,
     uri = None,
     params = \<lparr>error = ''nope'', error_description = None, error_uri = None,
       extra = Map.empty, AuthErrorConfig.state = None\<rparr>,
     AuthError.state = None\<rparr> \<and>
   uri \<lparr>code = ''invalid_request'',
     message = ''The request is missing a required parameter, includes an invalid parameter value, includes a parameter more than once, or is otherwise malformed.\<newline>More info: no client_id'',
     description = Str ''no client_id'',
     uri = Some ''https://as.example/docs#invalid_request'',
     params = \<lparr>error = ''invalid_request'', error_description = Some ''no client_id'',
       error_uri = Some ''https://as.example/docs#invalid_request'', extra = Map.empty\<rparr>\<rparr> =
     Some ''https://as.example/docs#invalid_request'' \<and>
   uri \<lparr>code = ''nope'', message = ''An unknown error occurred'', description = Undefined,
     uri = None,
     params = \<lparr>error = ''nope'', error_description = None, error_uri = None,
       extra = Map.empty, AuthErrorConfig.state = None\<rparr>,
     AuthError.state = None\<rparr> = None"
proof -
  let ?p = "\<lparr>error = ''invalid_request'', error_description = Some ''no client_id'',
      error_uri = Some ''https://as.example/docs#invalid_request'', extra = Map.empty\<rparr>"
  let ?q = "\<lparr>error = ''nope'', error_description = None, error_uri = None,
      extra = Map.empty, AuthErrorConfig.state = None\<rparr>"
  let ?r = "\<lparr>code = ''invalid_request'',
     message = ''The request is missing a required parameter, includes an invalid parameter value, includes a parameter more than once, or is otherwise malformed.\<newline>More info: no client_id'',
     description = Str ''no client_id'',
     uri = Some ''https://as.example/docs#invalid_request'', params = ?p\<rparr>"
  let ?a = "\<lparr>code = ''nope'', message = ''An unknown error occurred'',
     description = Undefined, uri = None, params = ?q, AuthError.state = None\<rparr>"
  have r: "ResponseError_constructor ?p ''auth'' = Normal ?r"
    by (simp add: constructor_defs auth_def)
  have a: "AuthError_constructor ?q = Normal ?a"
    by (simp add: AuthError_constructor_def constructor_defs auth_def
        ResponseError.extend_def AuthError.fields_def)
  from uri_is_error_uri [of ?p "''auth''" ?r ?q ?a] r a
  have "uri ?r = error_uri ?p \<and> uri ?a = error_uri ?q" by blast
  with r a show ?thesis by simp
qed

subsection \<open>The catalog\<close>

text \<open>
  C9. The catalog has exactly one category, \<^verbatim>\<open>auth\<close>, and that category has exactly
  the sixteen listed codes, each once and each with a non-empty text. The catalog is a
  constant: the constructors only read it and return nothing that refers to it.
\<close>

theorem errorCodeMessages_codes:
  "map fst errorCodeMessages = [''auth''] \<and>
   map_of errorCodeMessages ''auth'' = Some auth \<and>
   map fst auth =
     [''invalid_request'', ''unauthorized_client'', ''access_denied'',
      ''unsupported_response_type'', ''invalid_scope'', ''server_error'',
      ''temporarily_unavailable'', ''interaction_required'', ''login_required'',
      ''account_selection_required'', ''consent_required'', ''invalid_request_uri'',
      ''invalid_request_object'', ''request_not_supported'', ''request_uri_not_supported'',
      ''registration_not_supported''] \<and>
   distinct (map fst auth) \<and> length auth = 16 \<and> [] \<notin> set (map snd auth)"
  by (simp add: errorCodeMessages_def auth_def)

subsection \<open>The two presence tests\<close>

text \<open>
  The message is resolved by truthiness and the description by \<^verbatim>\<open>??\<close>. For a code that
  is no property of the catalog object and an empty description the two fields disagree:
  the message is the literal, the description is the empty string.
\<close>

lemma empty_description_disagreement:
  assumes "error p \<notin> fst ` set auth" and "error p \<notin> set ObjectPrototype_names"
    and "error_description p = Some []"
  shows "\<exists>r. ResponseError_constructor p ''auth'' = Normal r \<and>
           message r = ''An unknown error occurred'' \<and> description r = Str []"
  using assms
  by (simp add: ResponseError_constructor_def lookup_message_auth Let_def get_property_missing
      nullish_coalesce_def)

text \<open>
  C10. The claim quantifies over every code that is not in the catalog. For a code that
  names a member of \<^verbatim>\<open>Object.prototype\<close> the lookup of line 85 returns that member, a
  truthy function, and with an empty description the message is the function's source
  text and not \<^verbatim>\<open>An unknown error occurred\<close>; the description is the empty string, as
  the claim says.
\<close>

theorem inherited_code_empty_description:
  "ResponseError_constructor
     \<lparr>error = ''toString'', error_description = Some '''', error_uri = None,
      extra = Map.empty\<rparr> ''auth'' =
   Normal \<lparr>code = ''toString'', message = ''function toString() { [native code] }'',
     description = Str '''', uri = None,
     params = \<lparr>error = ''toString'', error_description = Some '''', error_uri = None,
       extra = Map.empty\<rparr>\<rparr>"
  by (simp add: constructor_defs auth_def)

text \<open>
  The same lookup without a description: the message is the source text of the function
  \<^verbatim>\<open>Object\<close> and the description, declared a string, is the function itself.
\<close>

lemma inherited_code_no_description:
  "ResponseError_constructor
     \<lparr>error = ''constructor'', error_description = None, error_uri = None,
      extra = Map.empty\<rparr> ''auth'' =
   Normal \<lparr>code = ''constructor'', message = ''function Object() { [native code] }'',
     description = Builtin ''Object'', uri = None,
     params = \<lparr>error = ''constructor'', error_description = None, error_uri = None,
       extra = Map.empty\<rparr>\<rparr>"
  by (simp add: constructor_defs auth_def)

end
